theory Spec2Isabelle
  imports Main "HOL-Library.Word"
begin

section \<open>How a call ends\<close>

text \<open>
  A call of the thread core either returns, aborts the process (a failed \<open>CHECK\<close>,
  \<open>LOG(FATAL)\<close>, \<open>PLOG(FATAL)\<close>), stays inside a blocking primitive because the state
  it waits for does not hold, or goes through a null pointer.
\<close>

datatype 'a outcome = Returns 'a | Fatal | Blocks | NullDeref

fun bind :: "'a outcome \<Rightarrow> ('a \<Rightarrow> 'b outcome) \<Rightarrow> 'b outcome" where
  "bind (Returns x) f = f x"
| "bind Fatal f = Fatal"
| "bind Blocks f = Blocks"
| "bind NullDeref f = NullDeref"

text \<open>
  Native thread handles, TLS keys and object addresses; address 0 is the null pointer.
  Member names of the source end in an underscore (\<open>owner_\<close>, \<open>list_\<close>); the fields
  here carry the same names without it.
\<close>

type_synonym pthread_t = nat
type_synonym pthread_key_t = nat
type_synonym ptr = nat

abbreviation (input) NULL :: ptr where "NULL \<equiv> 0"

section \<open>The pthread primitives the source calls\<close>

text \<open>
  The primitives belong to the platform, not to the repository. Each one takes as first
  argument \<open>res\<close> the error code the platform reports for this call (0 for none); a call
  that reports an error leaves the object as it was.

  A mutex made by \<open>pthread_mutex_init(&m, NULL)\<close> has the default type: it is free
  (\<open>None\<close>) or held by one native thread (\<open>Some holder\<close>), and \<open>pthread_mutex_lock\<close>
  on a held mutex suspends the caller until the mutex is free. In the state where the
  mutex is held the call therefore does not return: \<open>Blocks\<close>.
\<close>

type_synonym pthread_mutex_t = "pthread_t option"

definition EBUSY :: int where
  "EBUSY = 16"

definition pthread_mutex_init :: "int \<Rightarrow> int \<times> pthread_mutex_t" where
  "pthread_mutex_init res = (res, None)"

definition pthread_mutex_lock ::
  "int \<Rightarrow> pthread_t \<Rightarrow> pthread_mutex_t \<Rightarrow> (int \<times> pthread_mutex_t) outcome" where
  "pthread_mutex_lock res self l =
     (case l of
        Some holder \<Rightarrow> Blocks
      | None \<Rightarrow> if res = 0 then Returns (0, Some self) else Returns (res, None))"

definition pthread_mutex_unlock :: "int \<Rightarrow> pthread_mutex_t \<Rightarrow> int \<times> pthread_mutex_t" where
  "pthread_mutex_unlock res l = (if res = 0 then (0, None) else (res, l))"

text \<open>
  Thread-specific data: the value stored under a key by a native thread. The static
  \<open>Thread::pthread_key_self\<close> of the source (line 19) is part of this state.
  \<open>pthread_key_create\<close> stores the key \<open>k\<close> the platform hands out; the values under it
  are left as the state has them, so that the double check of \<open>Thread::Init\<close> is a
  branch that can be taken.
\<close>

record tls_state =
  pthread_key_self :: pthread_key_t
  specific :: "pthread_key_t \<Rightarrow> pthread_t \<Rightarrow> ptr"

definition pthread_key_create :: "int \<Rightarrow> pthread_key_t \<Rightarrow> tls_state \<Rightarrow> int \<times> tls_state" where
  "pthread_key_create res k g =
     (if res = 0 then (0, g\<lparr>pthread_key_self := k\<rparr>) else (res, g))"

definition pthread_getspecific :: "tls_state \<Rightarrow> pthread_key_t \<Rightarrow> pthread_t \<Rightarrow> ptr" where
  "pthread_getspecific g k self = specific g k self"

definition pthread_setspecific ::
  "int \<Rightarrow> pthread_key_t \<Rightarrow> pthread_t \<Rightarrow> ptr \<Rightarrow> tls_state \<Rightarrow> int \<times> tls_state" where
  "pthread_setspecific res k self v g =
     (if res = 0 then (0, g\<lparr>specific := (specific g)(k := (specific g k)(self := v))\<rparr>)
      else (res, g))"

text \<open>
  Modelled from the spec: \<open>Thread::Current()\<close> is declared in thread.h, which is not among
  the sources. The spec's Current-Thread Lookup is "a process-wide thread-local slot
  mapping a native thread to its Thread object", obtained as "get my own thread"; the
  slot is the one \<open>Thread::Init\<close> reads with \<open>pthread_getspecific(pthread_key_self)\<close>.
\<close>

definition Current :: "tls_state \<Rightarrow> pthread_t \<Rightarrow> ptr" where
  "Current g self = pthread_getspecific g (pthread_key_self g) self"

section \<open>Mutex\<close>

text \<open>
  Modelled from the spec: the class \<open>Mutex\<close> is declared in thread.h, which is not among
  the sources. It has "a diagnostic name", an "underlying exclusive lock" and a "current
  owner: the Thread currently holding the lock, or none"; \<open>GetOwner\<close> and \<open>SetOwner\<close> read
  and write the owner field, and a new mutex has no owner.
\<close>

record Mutex =
  name :: string
  owner :: ptr
  lock_impl :: pthread_mutex_t

definition GetOwner :: "Mutex \<Rightarrow> ptr" where
  "GetOwner mu = owner mu"

definition SetOwner :: "ptr \<Rightarrow> Mutex \<Rightarrow> Mutex" where
  "SetOwner thread mu = mu\<lparr>owner := thread\<rparr>"

text \<open>\<open>Mutex::Create\<close>, lines 21-26.\<close>

definition Mutex_Create :: "int \<Rightarrow> string \<Rightarrow> Mutex outcome" where
  "Mutex_Create res nm =
     (let (result, l) = pthread_mutex_init res in
      if 0 \<noteq> result then Fatal
      else Returns \<lparr>name = nm, owner = NULL, lock_impl = l\<rparr>)"

text \<open>\<open>Mutex::Lock\<close>, lines 28-32, called by the native thread \<open>self\<close>.\<close>

definition Mutex_Lock :: "int \<Rightarrow> tls_state \<Rightarrow> pthread_t \<Rightarrow> Mutex \<Rightarrow> Mutex outcome" where
  "Mutex_Lock res g self mu =
     bind (pthread_mutex_lock res self (lock_impl mu)) (\<lambda>(result, l).
       if result \<noteq> 0 then Fatal
       else Returns (SetOwner (Current g self) (mu\<lparr>lock_impl := l\<rparr>)))"

text \<open>
  \<open>Mutex::TryLock\<close>, lines 34-43. Line 35 calls \<open>pthread_mutex_lock\<close>, as \<open>Mutex::Lock\<close> does.
\<close>

definition Mutex_TryLock :: "int \<Rightarrow> tls_state \<Rightarrow> pthread_t \<Rightarrow> Mutex \<Rightarrow> (bool \<times> Mutex) outcome" where
  "Mutex_TryLock res g self mu =
     bind (pthread_mutex_lock res self (lock_impl mu)) (\<lambda>(result, l).
       if result = EBUSY then Returns (False, mu\<lparr>lock_impl := l\<rparr>)
       else if result \<noteq> 0 then Fatal
       else Returns (True, SetOwner (Current g self) (mu\<lparr>lock_impl := l\<rparr>)))"

text \<open>\<open>Mutex::Unlock\<close>, lines 45-50.\<close>

definition Mutex_Unlock :: "int \<Rightarrow> tls_state \<Rightarrow> pthread_t \<Rightarrow> Mutex \<Rightarrow> Mutex outcome" where
  "Mutex_Unlock res g self mu =
     (if GetOwner mu \<noteq> Current g self then Fatal
      else let (result, l) = pthread_mutex_unlock res (lock_impl mu) in
        if result \<noteq> 0 then Fatal
        else Returns (SetOwner (Current g self) (mu\<lparr>lock_impl := l\<rparr>)))"

text \<open>
  \<open>Mutex::Unlock\<close> as the other threads see it. Line 47 frees the pthread mutex, and
  line 49 writes the owner afterwards, so another thread can run between the two.
  \<open>Mutex_Unlock_release\<close> is lines 46-48, up to the point where the mutex is free;
  \<open>Mutex_Unlock_record\<close> is line 49.
\<close>

definition Mutex_Unlock_release ::
  "int \<Rightarrow> tls_state \<Rightarrow> pthread_t \<Rightarrow> Mutex \<Rightarrow> Mutex outcome" where
  "Mutex_Unlock_release res g self mu =
     (if GetOwner mu \<noteq> Current g self then Fatal
      else let (result, l) = pthread_mutex_unlock res (lock_impl mu) in
        if result \<noteq> 0 then Fatal
        else Returns (mu\<lparr>lock_impl := l\<rparr>))"

definition Mutex_Unlock_record :: "tls_state \<Rightarrow> pthread_t \<Rightarrow> Mutex \<Rightarrow> Mutex" where
  "Mutex_Unlock_record g self mu = SetOwner (Current g self) mu"

section \<open>ThreadList\<close>

text \<open>
  \<open>std::find\<close> over \<open>list_\<close>: the position of the first element equal to \<open>x\<close>, or the
  length of the list (the iterator \<open>end()\<close>) when there is none.
\<close>

fun find_pos :: "'a list \<Rightarrow> 'a \<Rightarrow> nat" where
  "find_pos [] x = 0"
| "find_pos (y # ys) x = (if y = x then 0 else Suc (find_pos ys x))"

text \<open>
  Modelled from the spec: \<open>MutexLock\<close> is declared in thread.h, which is not among the
  sources. The spec has \<open>register\<close> and \<open>unregister\<close> work "under the guard lock": the guard
  locks the mutex where it is declared and unlocks it where its scope ends.
\<close>

definition MutexLock_enter :: "int \<Rightarrow> tls_state \<Rightarrow> pthread_t \<Rightarrow> Mutex \<Rightarrow> Mutex outcome" where
  "MutexLock_enter res g self mu = Mutex_Lock res g self mu"

definition MutexLock_leave :: "int \<Rightarrow> tls_state \<Rightarrow> pthread_t \<Rightarrow> Mutex \<Rightarrow> Mutex outcome" where
  "MutexLock_leave res g self mu = Mutex_Unlock res g self mu"

text \<open>
  The registry: the mutex \<open>lock_\<close> points to, and the \<open>std::list<Thread*>\<close> \<open>list_\<close>.
\<close>

record ThreadList =
  lock :: Mutex
  list :: "ptr list"

text \<open>\<open>ThreadList::Create\<close> and the constructor, lines 204-210.\<close>

definition ThreadList_Create :: "int \<Rightarrow> ThreadList outcome" where
  "ThreadList_Create res =
     bind (Mutex_Create res ''ThreadList::Lock'') (\<lambda>mu. Returns \<lparr>lock = mu, list = []\<rparr>)"

text \<open>
  The destructor, lines 212-222. What it leaves is no object any more (\<open>lock_\<close> is
  deleted and cleared), so a return carries no value.
\<close>

definition ThreadList_dtor :: "tls_state \<Rightarrow> pthread_t \<Rightarrow> ThreadList \<Rightarrow> unit outcome" where
  "ThreadList_dtor g self reg =
     (if \<not> length (list reg) \<le> 1 then Fatal
      else if \<not> (case list reg of [] \<Rightarrow> True | front # rest \<Rightarrow> front = Current g self) then Fatal
      else Returns ())"

text \<open>
  \<open>ThreadList::Register\<close>, lines 224-228, and \<open>ThreadList::Unregister\<close>, lines 230-234:
  \<open>rl\<close> and \<open>ru\<close> are the codes of the guard's \<open>pthread_mutex_lock\<close> and
  \<open>pthread_mutex_unlock\<close>. \<open>push_front\<close> is \<open>#\<close>; \<open>std::list::remove\<close> erases every
  element equal to its argument, which is \<open>removeAll\<close>.
\<close>

definition ThreadList_Register ::
  "int \<Rightarrow> int \<Rightarrow> tls_state \<Rightarrow> pthread_t \<Rightarrow> ptr \<Rightarrow> ThreadList \<Rightarrow> ThreadList outcome" where
  "ThreadList_Register rl ru g self thread reg =
     bind (MutexLock_enter rl g self (lock reg)) (\<lambda>mu.
       if find_pos (list reg) thread \<noteq> length (list reg) then Fatal
       else bind (MutexLock_leave ru g self mu) (\<lambda>mu'.
         Returns \<lparr>lock = mu', list = thread # list reg\<rparr>))"

definition ThreadList_Unregister ::
  "int \<Rightarrow> int \<Rightarrow> tls_state \<Rightarrow> pthread_t \<Rightarrow> ptr \<Rightarrow> ThreadList \<Rightarrow> ThreadList outcome" where
  "ThreadList_Unregister rl ru g self thread reg =
     bind (MutexLock_enter rl g self (lock reg)) (\<lambda>mu.
       if find_pos (list reg) thread = length (list reg) then Fatal
       else bind (MutexLock_leave ru g self mu) (\<lambda>mu'.
         Returns \<lparr>lock = mu', list = removeAll thread (list reg)\<rparr>))"

text \<open>
  A sequence of calls on one registry, each by some native thread and with the codes its
  two mutex primitives report; the sequence stops at the first call that does not return.
\<close>

datatype call =
  CallRegister int int pthread_t ptr
| CallUnregister int int pthread_t ptr

fun do_call :: "tls_state \<Rightarrow> call \<Rightarrow> ThreadList \<Rightarrow> ThreadList outcome" where
  "do_call g (CallRegister rl ru self thread) reg = ThreadList_Register rl ru g self thread reg"
| "do_call g (CallUnregister rl ru self thread) reg = ThreadList_Unregister rl ru g self thread reg"

fun run_calls :: "tls_state \<Rightarrow> call list \<Rightarrow> ThreadList \<Rightarrow> ThreadList outcome" where
  "run_calls g [] reg = Returns reg"
| "run_calls g (c # cs) reg = bind (do_call g c reg) (run_calls g cs)"

text \<open>
  The spec's side of the uniqueness property: the set of currently registered threads
  after a sequence of calls, starting from the set \<open>S\<close>.
\<close>

fun spec_registered :: "call list \<Rightarrow> ptr set \<Rightarrow> ptr set" where
  "spec_registered [] S = S"
| "spec_registered (CallRegister rl ru self thread # cs) S = spec_registered cs (insert thread S)"
| "spec_registered (CallUnregister rl ru self thread # cs) S = spec_registered cs (S - {thread})"

text \<open>
  A sequence in which no call registers a registered thread or unregisters an
  unregistered one, and in which the mutex primitives report no error.
\<close>

fun orderly :: "call list \<Rightarrow> ptr set \<Rightarrow> bool" where
  "orderly [] S = True"
| "orderly (CallRegister rl ru self thread # cs) S =
     (rl = 0 \<and> ru = 0 \<and> thread \<notin> S \<and> orderly cs (insert thread S))"
| "orderly (CallUnregister rl ru self thread # cs) S =
     (rl = 0 \<and> ru = 0 \<and> thread \<in> S \<and> orderly cs (S - {thread}))"

section \<open>Thread\<close>

text \<open>
  Modelled from the spec: the enumeration \<open>Thread::State\<close> is declared in thread.h, which
  is not among the sources. The spec lists the states as \<open>New, Runnable, Blocked, Waiting,
  TimedWaiting, Native, Terminated\<close>; they are numbered in that order, which is the order of
  \<open>kStateNames\<close>, from 0. A value of the type is an integer, so that a value outside the
  seven can be written, and \<open>static_cast<int>\<close> is the identity.
\<close>

type_synonym State = int

definition kNew :: State where "kNew = 0"
definition kRunnable :: State where "kRunnable = 1"
definition kBlocked :: State where "kBlocked = 2"
definition kWaiting :: State where "kWaiting = 3"
definition kTimedWaiting :: State where "kTimedWaiting = 4"
definition kNative :: State where "kNative = 5"
definition kTerminated :: State where "kTerminated = 6"

text \<open>
  Modelled from the spec: \<open>MemMap\<close> is declared in a header that is not among the sources.
  The spec's Stack Region is "a fixed-size block of addressable memory ... with a known
  base and limit": \<open>GetAddress\<close> is its lowest address, \<open>GetLimit\<close> the address after its
  last byte. Addresses are words of the platform's pointer width \<open>'w\<close>.
\<close>

record (overloaded) 'w MemMap =
  base_addr :: "'w word"
  byte_count :: "'w word"

definition GetAddress :: "'w::len MemMap \<Rightarrow> 'w word" where
  "GetAddress m = base_addr m"

definition GetLimit :: "'w::len MemMap \<Rightarrow> 'w word" where
  "GetLimit m = base_addr m + byte_count m"

text \<open>
  Modelled from the spec: \<open>scoped_ptr\<close> is declared in a header that is not among the
  sources. The spec has the Thread own its Stack Region exclusively; a \<open>scoped_ptr\<close> is the
  owning pointer, \<open>release()\<close> gives the ownership up (it returns the pointer held and
  holds the null pointer from then on), and \<open>operator->\<close> goes through the pointer held.
  \<open>scoped_ptr_release\<close> returns the pointer and the \<open>scoped_ptr\<close> after the call.
\<close>

type_synonym scoped_ptr = ptr

definition scoped_ptr_release :: "scoped_ptr \<Rightarrow> ptr \<times> scoped_ptr" where
  "scoped_ptr_release sp = (sp, NULL)"

definition scoped_ptr_arrow :: "(ptr \<rightharpoonup> 'a) \<Rightarrow> scoped_ptr \<Rightarrow> 'a outcome" where
  "scoped_ptr_arrow store sp =
     (if sp = NULL then NullDeref
      else case store sp of None \<Rightarrow> NullDeref | Some obj \<Rightarrow> Returns obj)"

text \<open>The fields of a \<open>Thread\<close> that thread.cc reads or writes.\<close>

record (overloaded) 'w Thread =
  state :: State
  stack :: scoped_ptr
  stack_limit :: "'w word"
  stack_base :: "'w word"
  handle :: pthread_t
  jni_env :: ptr
  exception :: ptr

text \<open>
  What thread.cc uses and other files of the repository declare, taken as parameters: the
  fields a \<open>Thread\<close> has after its constructor, the architecture's \<open>InitCpu\<close>, and
  \<open>RoundUp\<close> and \<open>kPageSize\<close>.
\<close>

record (overloaded) 'w platform =
  Thread_ctor :: "'w Thread"
  InitCpu :: "'w Thread \<Rightarrow> 'w Thread"
  RoundUp :: "'w word \<Rightarrow> 'w word \<Rightarrow> 'w word"
  kPageSize :: "'w word"

text \<open>
  Modelled from the spec: \<open>Runtime\<close> and \<open>JavaVMExt\<close> are declared in headers that are not
  among the sources. The spec has the core consume "a stack-size and native-interface
  strictness policy from process-wide configuration".
\<close>

record JavaVMExt =
  check_jni :: bool

record Runtime =
  stack_size :: nat
  java_vm :: "JavaVMExt option"

definition GetStackSize :: "Runtime \<Rightarrow> nat" where
  "GetStackSize runtime = stack_size runtime"

definition GetJavaVM :: "Runtime \<Rightarrow> JavaVMExt option" where
  "GetJavaVM runtime = java_vm runtime"

text \<open>
  \<open>Thread::Create\<close>, lines 57-88. \<open>mp\<close> is the pointer \<open>MemMap::Map\<close> returns for the
  size \<open>sz\<close> (null when the mapping failed) and \<open>maps\<close> the \<open>MemMap\<close> objects by address; \<open>a\<close> is the address
  \<open>new Thread\<close> returns and \<open>threads\<close> the \<open>Thread\<close> objects by address; \<open>r1\<close> to \<open>r4\<close> are the
  codes of \<open>pthread_attr_init\<close>, \<open>pthread_attr_setdetachstate\<close>, \<open>pthread_create\<close> and
  \<open>pthread_attr_destroy\<close>.
\<close>

definition Thread_Create ::
  "'w::len platform \<Rightarrow> Runtime \<Rightarrow> ptr \<Rightarrow> ptr \<Rightarrow> int \<Rightarrow> int \<Rightarrow> int \<Rightarrow> int \<Rightarrow>
   (ptr \<rightharpoonup> 'w MemMap) \<Rightarrow> (ptr \<rightharpoonup> 'w Thread) \<Rightarrow> (ptr \<times> (ptr \<rightharpoonup> 'w Thread)) outcome" where
  "Thread_Create x runtime mp a r1 r2 r3 r4 maps threads =
     (let sz = GetStackSize runtime;
          stack0 = mp
      in if stack0 = NULL then Fatal
      else
        let new_thread = a;
            t = Thread_ctor x;
            t = InitCpu x t;
            (p, stack1) = scoped_ptr_release stack0;
            t = t\<lparr>stack := p\<rparr>
        in bind (scoped_ptr_arrow maps stack1) (\<lambda>m.
             let t = t\<lparr>stack_limit := GetAddress m\<rparr> in
             bind (scoped_ptr_arrow maps stack1) (\<lambda>m.
               let t = t\<lparr>stack_base := GetLimit m\<rparr> in
               if r1 \<noteq> 0 then Fatal
               else if r2 \<noteq> 0 then Fatal
               else if r3 \<noteq> 0 then Fatal
               else if r4 \<noteq> 0 then Fatal
               else Returns (new_thread, threads(new_thread \<mapsto> t)))))"

text \<open>
  \<open>Thread::Attach\<close>, lines 90-114, called by the native thread \<open>self\<close>. \<open>addr\<close> is the
  address of the local variable \<open>thread\<close>, \<open>res\<close> the code of \<open>pthread_setspecific\<close>, \<open>a\<close>
  the address \<open>new Thread\<close> returns and \<open>e\<close> the address \<open>new JNIEnvExt\<close> returns. The new
  object is reached through \<open>thread\<close> only, so its fields are collected in \<open>t\<close> and stored
  under \<open>thread\<close> on return. The constructor of \<open>JNIEnvExt\<close> belongs to the
  native-interface bridge; it is given the pointer and the flag and leaves the \<open>Thread\<close>
  and the slot as they are.
\<close>

definition Thread_Attach ::
  "'w::len platform \<Rightarrow> Runtime \<Rightarrow> pthread_t \<Rightarrow> 'w word \<Rightarrow> int \<Rightarrow> ptr \<Rightarrow> ptr \<Rightarrow>
   tls_state \<Rightarrow> (ptr \<rightharpoonup> 'w Thread) \<Rightarrow> (ptr \<times> tls_state \<times> (ptr \<rightharpoonup> 'w Thread)) outcome" where
  "Thread_Attach x runtime self addr res a e g threads =
     (let thread = a;
          t = Thread_ctor x;
          t = InitCpu x t;
          t = t\<lparr>stack_limit := - 1\<rparr>;
          base = RoundUp x addr (kPageSize x);
          t = t\<lparr>stack_base := base\<rparr>;
          t = t\<lparr>handle := self\<rparr>;
          t = t\<lparr>state := kRunnable\<rparr>;
          (errno, g') = pthread_setspecific res (pthread_key_self g) self thread g
      in if errno \<noteq> 0 then Fatal
      else case GetJavaVM runtime of
             None \<Rightarrow> Fatal
           | Some vm \<Rightarrow>
               let check = check_jni vm;
                   t = t\<lparr>jni_env := e\<rparr>
               in Returns (thread, g', threads(thread \<mapsto> t)))"

text \<open>
  \<open>Thread::Init\<close>, lines 120-136, called by the native thread \<open>self\<close>; \<open>res\<close> is the code
  of \<open>pthread_key_create\<close> and \<open>k\<close> the key it hands out.
\<close>

definition Thread_Init ::
  "int \<Rightarrow> pthread_key_t \<Rightarrow> pthread_t \<Rightarrow> tls_state \<Rightarrow> (bool \<times> tls_state) outcome" where
  "Thread_Init res k self g =
     (let (result, g') = pthread_key_create res k g
      in if result \<noteq> 0 then Returns (False, g')
      else if pthread_getspecific g' (pthread_key_self g') self \<noteq> NULL then Returns (False, g')
      else Returns (True, g'))"

section \<open>Printing a state\<close>

text \<open>
  An output stream is the text written to it so far; \<open>os << x\<close> appends the rendering of
  \<open>x\<close>. An \<open>int\<close> is rendered in decimal, with a minus sign when negative.
\<close>

definition digit_char :: "nat \<Rightarrow> char" where
  "digit_char d = ''0123456789'' ! d"

fun dec :: "nat \<Rightarrow> string" where
  "dec n = (if n < 10 then [digit_char n] else dec (n div 10) @ [digit_char (n mod 10)])"

declare dec.simps [simp del]

definition put_int :: "string \<Rightarrow> int \<Rightarrow> string" where
  "put_int os i = os @ (if i < 0 then CHR ''-'' # dec (nat (- i)) else dec (nat i))"

definition put_str :: "string \<Rightarrow> string \<Rightarrow> string" where
  "put_str os s = os @ s"

text \<open>\<open>kStateNames\<close>, lines 178-186.\<close>

definition kStateNames :: "string list" where
  "kStateNames =
     [''New'', ''Runnable'', ''Blocked'', ''Waiting'', ''TimedWaiting'', ''Native'', ''Terminated'']"

text \<open>
  \<open>operator<<(std::ostream&, const Thread::State&)\<close>, lines 187-194. The array is read
  at \<open>state - kNew\<close>; a read outside it is \<open>None\<close>.
\<close>

definition array_at :: "'a list \<Rightarrow> int \<Rightarrow> 'a option" where
  "array_at xs i = (if 0 \<le> i \<and> i < int (length xs) then Some (xs ! nat i) else None)"

definition put_State :: "string \<Rightarrow> State \<Rightarrow> string option" where
  "put_State os st =
     (if st \<ge> kNew \<and> st \<le> kTerminated then
        (case array_at kStateNames (st - kNew) of
           None \<Rightarrow> None
         | Some nm \<Rightarrow> Some (put_str os nm))
      else Some (put_str (put_int (put_str os ''State['') st) '']''))"

section \<open>Attaching an exception with a formatted message\<close>

text \<open>
  \<open>vsnprintf(buf, n, fmt, args)\<close> belongs to the C library. \<open>out\<close> is the complete text
  the conversion of \<open>fmt\<close> with \<open>args\<close> produces. For \<open>n > 0\<close> the call writes the first
  \<open>n - 1\<close> characters of \<open>out\<close> and then a null character into \<open>buf\<close>, leaves the rest of
  \<open>buf\<close> as it was, and returns the length of \<open>out\<close>.
\<close>

abbreviation NUL :: char where "NUL \<equiv> CHR 0x00"

definition vsnprintf :: "char list \<Rightarrow> nat \<Rightarrow> string \<Rightarrow> char list \<times> int" where
  "vsnprintf buf n out =
     (if n = 0 then (buf, int (length out))
      else let written = take (n - 1) out @ [NUL]
           in (written @ drop (length written) buf, int (length out)))"

text \<open>The C string a \<open>const char*\<close> to the start of \<open>buf\<close> denotes.\<close>

definition c_str :: "char list \<Rightarrow> string" where
  "c_str buf = takeWhile (\<lambda>c. c \<noteq> NUL) buf"

text \<open>
  \<open>ThrowNewExceptionV\<close>, lines 165-169. \<open>junk i\<close> is what byte \<open>i\<close> of the local array
  \<open>msg\<close> holds before the call of \<open>vsnprintf\<close> (the array is not initialised), \<open>format\<close>
  the C library's conversion, and \<open>ThrowNewException\<close> (lines 138-163, whose steps are
  the object model's) the callee that receives the array.
\<close>

definition ThrowNewExceptionV ::
  "(ptr \<Rightarrow> string \<Rightarrow> char list \<Rightarrow> 'r) \<Rightarrow> ('f \<Rightarrow> 'a \<Rightarrow> string) \<Rightarrow> (nat \<Rightarrow> char) \<Rightarrow>
   ptr \<Rightarrow> string \<Rightarrow> 'f \<Rightarrow> 'a \<Rightarrow> 'r" where
  "ThrowNewExceptionV ThrowNewException format junk thread exception_class_name fmt args =
     (let msg0 = map junk [0..<512];
          (msg, n) = vsnprintf msg0 (length msg0) (format fmt args)
      in ThrowNewException thread exception_class_name msg)"

section \<open>Properties of the mutex\<close>

lemma Mutex_Lock_free:
  "lock_impl mu = None \<Longrightarrow>
     Mutex_Lock rl g self mu =
       (if rl = 0 then Returns (mu\<lparr>lock_impl := Some self, owner := Current g self\<rparr>) else Fatal)"
  by (simp add: Mutex_Lock_def pthread_mutex_lock_def SetOwner_def)

lemma Mutex_Lock_held: "lock_impl mu = Some h \<Longrightarrow> Mutex_Lock rl g self mu = Blocks"
  by (simp add: Mutex_Lock_def pthread_mutex_lock_def)

lemma Mutex_TryLock_held: "lock_impl mu = Some h \<Longrightarrow> Mutex_TryLock res g self mu = Blocks"
  by (simp add: Mutex_TryLock_def pthread_mutex_lock_def)

lemma Mutex_TryLock_free:
  "lock_impl mu = None \<Longrightarrow>
     Mutex_TryLock 0 g self mu =
       Returns (True, mu\<lparr>lock_impl := Some self, owner := Current g self\<rparr>)"
  by (simp add: Mutex_TryLock_def pthread_mutex_lock_def SetOwner_def EBUSY_def)

lemma Mutex_Unlock_after_Lock:
  "Mutex_Unlock ru g self (mu\<lparr>lock_impl := Some self, owner := Current g self\<rparr>) =
     (if ru = 0 then Returns (mu\<lparr>lock_impl := None, owner := Current g self\<rparr>) else Fatal)"
  by (simp add: Mutex_Unlock_def pthread_mutex_unlock_def SetOwner_def GetOwner_def)

text \<open>
  C1. The claim: \<open>try_lock\<close> never blocks; when another party holds the lock it returns
  \<open>false\<close>. The code does not do this. Line 35 calls \<open>pthread_mutex_lock\<close>, so on a
  mutex that native thread 2 holds, the call by native thread 1 stays inside the primitive,
  whatever error code the platform would report; and the same holds for every held mutex,
  every holder and every caller. The test for \<open>EBUSY\<close> on line 36 is for the answer
  of \<open>pthread_mutex_trylock\<close>, which is not the primitive called.
\<close>

theorem Mutex_TryLock_blocks_on_held_lock:
  "Mutex_TryLock 0 \<lparr>pthread_key_self = 0, specific = (\<lambda>k t. 10 + t)\<rparr> 1
     \<lparr>name = ''mu'', owner = 12, lock_impl = Some 2\<rparr> = Blocks \<and>
   Mutex_TryLock res g self (mu\<lparr>lock_impl := Some holder\<rparr>) = Blocks"
  by (simp add: Mutex_TryLock_def pthread_mutex_lock_def)

text \<open>
  C2. A call of \<open>Unlock\<close> by a thread whose \<open>Thread::Current()\<close> is not the recorded
  owner ends in the fatal owner assertion; a call by the recorded owner releases the
  underlying lock and returns, unless \<open>pthread_mutex_unlock\<close> reports an error, which is
  fatal as well.
\<close>

theorem Mutex_Unlock_owner_assertion:
  "(GetOwner mu \<noteq> Current g self \<longrightarrow> Mutex_Unlock res g self mu = Fatal) \<and>
   (GetOwner mu = Current g self \<longrightarrow>
      Mutex_Unlock res g self mu =
        (if res = 0 then Returns (mu\<lparr>lock_impl := None\<rparr>) else Fatal))"
  by (simp add: Mutex_Unlock_def pthread_mutex_unlock_def SetOwner_def GetOwner_def)

theorem Mutex_Unlock_owner_assertion_witness:
  "GetOwner \<lparr>name = ''mu'', owner = 11, lock_impl = Some 1\<rparr>
     \<noteq> Current \<lparr>pthread_key_self = 0, specific = (\<lambda>k t. 10 + t)\<rparr> 2 \<and>
   Mutex_Unlock 0 \<lparr>pthread_key_self = 0, specific = (\<lambda>k t. 10 + t)\<rparr> 2
     \<lparr>name = ''mu'', owner = 11, lock_impl = Some 1\<rparr> = Fatal \<and>
   GetOwner \<lparr>name = ''mu'', owner = 11, lock_impl = Some 1\<rparr>
     = Current \<lparr>pthread_key_self = 0, specific = (\<lambda>k t. 10 + t)\<rparr> 1 \<and>
   Mutex_Unlock 0 \<lparr>pthread_key_self = 0, specific = (\<lambda>k t. 10 + t)\<rparr> 1
     \<lparr>name = ''mu'', owner = 11, lock_impl = Some 1\<rparr>
     = Returns \<lparr>name = ''mu'', owner = 11, lock_impl = None\<rparr>"
  using Mutex_Unlock_owner_assertion
          [of "\<lparr>name = ''mu'', owner = 11, lock_impl = Some 1\<rparr>"
              "\<lparr>pthread_key_self = 0, specific = (\<lambda>k t. 10 + t)\<rparr>" 2 0]
        Mutex_Unlock_owner_assertion
          [of "\<lparr>name = ''mu'', owner = 11, lock_impl = Some 1\<rparr>"
              "\<lparr>pthread_key_self = 0, specific = (\<lambda>k t. 10 + t)\<rparr>" 1 0]
  by (simp add: GetOwner_def Current_def pthread_getspecific_def)

lemma Mutex_Unlock_in_two_steps:
  "Mutex_Unlock res g self mu =
     bind (Mutex_Unlock_release res g self mu)
       (\<lambda>mu'. Returns (Mutex_Unlock_record g self mu'))"
  by (simp add: Mutex_Unlock_def Mutex_Unlock_release_def Mutex_Unlock_record_def
        pthread_mutex_unlock_def)

text \<open>
  C3. The claim: after every successful \<open>lock()\<close> and \<open>unlock()\<close> the owner field is the
  thread that made the call, the owner being written only next to a successful lock or
  unlock. The code does not keep this for \<open>lock()\<close>. \<open>Unlock\<close> writes the owner on line 49,
  after line 47 has freed the mutex, so the write is not ordered against the next
  \<open>Lock\<close>. Thread 1 (whose \<open>Thread\<close> is at 11) locks a new mutex and starts to unlock it:
  the mutex is free after line 48. Thread 2 (whose \<open>Thread\<close> is at 12) locks it, and is the
  owner. Thread 1 now runs line 49: the owner is thread 1 again, while thread 2 holds
  the mutex. When thread 2 unlocks the mutex it holds, the owner assertion of line 46 is
  fatal.
\<close>

theorem Mutex_owner_overwritten_after_release:
  "Mutex_Lock 0 \<lparr>pthread_key_self = 0, specific = (\<lambda>k t. 10 + t)\<rparr> 1
     \<lparr>name = ''mu'', owner = NULL, lock_impl = None\<rparr>
     = Returns \<lparr>name = ''mu'', owner = 11, lock_impl = Some 1\<rparr> \<and>
   Mutex_Unlock_release 0 \<lparr>pthread_key_self = 0, specific = (\<lambda>k t. 10 + t)\<rparr> 1
     \<lparr>name = ''mu'', owner = 11, lock_impl = Some 1\<rparr>
     = Returns \<lparr>name = ''mu'', owner = 11, lock_impl = None\<rparr> \<and>
   Mutex_Lock 0 \<lparr>pthread_key_self = 0, specific = (\<lambda>k t. 10 + t)\<rparr> 2
     \<lparr>name = ''mu'', owner = 11, lock_impl = None\<rparr>
     = Returns \<lparr>name = ''mu'', owner = 12, lock_impl = Some 2\<rparr> \<and>
   Mutex_Unlock_record \<lparr>pthread_key_self = 0, specific = (\<lambda>k t. 10 + t)\<rparr> 1
     \<lparr>name = ''mu'', owner = 12, lock_impl = Some 2\<rparr>
     = \<lparr>name = ''mu'', owner = 11, lock_impl = Some 2\<rparr> \<and>
   GetOwner \<lparr>name = ''mu'', owner = 11, lock_impl = Some 2\<rparr>
     \<noteq> Current \<lparr>pthread_key_self = 0, specific = (\<lambda>k t. 10 + t)\<rparr> 2 \<and>
   Mutex_Unlock 0 \<lparr>pthread_key_self = 0, specific = (\<lambda>k t. 10 + t)\<rparr> 2
     \<lparr>name = ''mu'', owner = 11, lock_impl = Some 2\<rparr>
     = Fatal"
  by (simp add: Mutex_Lock_def Mutex_Unlock_def Mutex_Unlock_release_def
        Mutex_Unlock_record_def pthread_mutex_lock_def pthread_mutex_unlock_def
        SetOwner_def GetOwner_def Current_def pthread_getspecific_def)

section \<open>Properties of the registry\<close>

lemma find_pos_le: "find_pos xs x \<le> length xs"
  by (induction xs) simp_all

lemma find_pos_end: "(find_pos xs x = length xs) = (x \<notin> set xs)"
proof (induction xs)
  case Nil
  show ?case by simp
next
  case (Cons y ys)
  have "find_pos ys x \<le> length ys" by (rule find_pos_le)
  with Cons show ?case by auto
qed

lemma Register_free:
  "lock_impl (lock reg) = None \<Longrightarrow>
   ThreadList_Register rl ru g self thread reg =
     (if rl \<noteq> 0 then Fatal
      else if thread \<in> set (list reg) then Fatal
      else if ru \<noteq> 0 then Fatal
      else Returns \<lparr>lock = (lock reg)\<lparr>lock_impl := None, owner := Current g self\<rparr>,
                    list = thread # list reg\<rparr>)"
  by (simp add: ThreadList_Register_def MutexLock_enter_def MutexLock_leave_def
        Mutex_Lock_free Mutex_Unlock_after_Lock find_pos_end)

lemma Register_held:
  "lock_impl (lock reg) = Some h \<Longrightarrow> ThreadList_Register rl ru g self thread reg = Blocks"
  by (simp add: ThreadList_Register_def MutexLock_enter_def Mutex_Lock_held)

lemma Unregister_free:
  "lock_impl (lock reg) = None \<Longrightarrow>
   ThreadList_Unregister rl ru g self thread reg =
     (if rl \<noteq> 0 then Fatal
      else if thread \<notin> set (list reg) then Fatal
      else if ru \<noteq> 0 then Fatal
      else Returns \<lparr>lock = (lock reg)\<lparr>lock_impl := None, owner := Current g self\<rparr>,
                    list = removeAll thread (list reg)\<rparr>)"
  by (simp add: ThreadList_Unregister_def MutexLock_enter_def MutexLock_leave_def
        Mutex_Lock_free Mutex_Unlock_after_Lock find_pos_end)

lemma Unregister_held:
  "lock_impl (lock reg) = Some h \<Longrightarrow> ThreadList_Unregister rl ru g self thread reg = Blocks"
  by (simp add: ThreadList_Unregister_def MutexLock_enter_def Mutex_Lock_held)

lemma Register_Returns:
  assumes "ThreadList_Register rl ru g self thread reg = Returns reg'"
  shows "thread \<notin> set (list reg) \<and> list reg' = thread # list reg \<and>
         lock_impl (lock reg') = None \<and> lock_impl (lock reg) = None \<and> rl = 0 \<and> ru = 0"
proof (cases "lock_impl (lock reg)")
  case None
  with assms show ?thesis
    by (auto simp add: Register_free split: if_splits)
next
  case (Some h)
  with assms show ?thesis
    by (simp add: Register_held)
qed

lemma Unregister_Returns:
  assumes "ThreadList_Unregister rl ru g self thread reg = Returns reg'"
  shows "thread \<in> set (list reg) \<and> list reg' = removeAll thread (list reg) \<and>
         lock_impl (lock reg') = None \<and> lock_impl (lock reg) = None \<and> rl = 0 \<and> ru = 0"
proof (cases "lock_impl (lock reg)")
  case None
  with assms show ?thesis
    by (auto simp add: Unregister_free split: if_splits)
next
  case (Some h)
  with assms show ?thesis
    by (simp add: Unregister_held)
qed

lemma bind_Returns: "bind m f = Returns y \<Longrightarrow> \<exists>x. m = Returns x \<and> f x = Returns y"
  by (cases m) simp_all

lemma run_calls_registered:
  "distinct (list reg) \<Longrightarrow> run_calls g cs reg = Returns reg' \<Longrightarrow>
     distinct (list reg') \<and> set (list reg') = spec_registered cs (set (list reg))"
proof (induction cs arbitrary: reg)
  case Nil
  then show ?case by simp
next
  case (Cons c cs)
  from Cons.prems(2) obtain mid where
    step: "do_call g c reg = Returns mid" and rest: "run_calls g cs mid = Returns reg'"
    by (auto dest: bind_Returns)
  show ?case
  proof (cases c)
    case (CallRegister rl ru self thread)
    with step have "thread \<notin> set (list reg)" and "list mid = thread # list reg"
      by (auto dest: Register_Returns)
    with Cons.prems(1) Cons.IH [OF _ rest] CallRegister show ?thesis
      by simp
  next
    case (CallUnregister rl ru self thread)
    with step have "list mid = removeAll thread (list reg)"
      by (auto dest: Unregister_Returns)
    with Cons.prems(1) Cons.IH [OF _ rest] CallUnregister show ?thesis
      by (simp add: distinct_removeAll)
  qed
qed

lemma run_calls_orderly:
  "distinct (list reg) \<Longrightarrow> lock_impl (lock reg) = None \<Longrightarrow> orderly cs (set (list reg)) \<Longrightarrow>
     \<exists>reg'. run_calls g cs reg = Returns reg'"
proof (induction cs arbitrary: reg)
  case Nil
  then show ?case by simp
next
  case (Cons c cs)
  show ?case
  proof (cases c)
    case (CallRegister rl ru self thread)
    let ?mid = "\<lparr>lock = (lock reg)\<lparr>lock_impl := None, owner := Current g self\<rparr>,
                 list = thread # list reg\<rparr>"
    from Cons.prems CallRegister have step: "do_call g c reg = Returns ?mid"
      by (simp add: Register_free)
    from Cons.prems CallRegister have "\<exists>reg'. run_calls g cs ?mid = Returns reg'"
      by (intro Cons.IH) simp_all
    with step show ?thesis by simp
  next
    case (CallUnregister rl ru self thread)
    let ?mid = "\<lparr>lock = (lock reg)\<lparr>lock_impl := None, owner := Current g self\<rparr>,
                 list = removeAll thread (list reg)\<rparr>"
    from Cons.prems CallUnregister have step: "do_call g c reg = Returns ?mid"
      by (simp add: Unregister_free)
    from Cons.prems CallUnregister have "\<exists>reg'. run_calls g cs ?mid = Returns reg'"
      by (intro Cons.IH) (simp_all add: distinct_removeAll)
    with step show ?thesis by simp
  qed
qed

text \<open>
  C4. \<open>Register\<close> of a thread that is in the list never returns, and is fatal once the
  guard lock is taken; \<open>Unregister\<close> of a thread that is not in the list likewise. A
  \<open>Register\<close> that returns has put the thread in front, an \<open>Unregister\<close> that returns has
  removed it. After any sequence of calls that returns, on a registry without duplicates
  (the empty one of \<open>ThreadList::Create\<close>, for one), the list has no duplicates and its
  elements are exactly the currently registered threads; and an orderly sequence on a
  registry whose guard lock is free does return.
\<close>

theorem ThreadList_uniqueness:
  "(thread \<in> set (list reg) \<longrightarrow>
      (\<forall>reg'. ThreadList_Register rl ru g self thread reg \<noteq> Returns reg')) \<and>
   (thread \<in> set (list reg) \<and> lock_impl (lock reg) = None \<and> rl = 0 \<longrightarrow>
      ThreadList_Register rl ru g self thread reg = Fatal) \<and>
   (thread \<notin> set (list reg) \<longrightarrow>
      (\<forall>reg'. ThreadList_Unregister rl ru g self thread reg \<noteq> Returns reg')) \<and>
   (thread \<notin> set (list reg) \<and> lock_impl (lock reg) = None \<and> rl = 0 \<longrightarrow>
      ThreadList_Unregister rl ru g self thread reg = Fatal) \<and>
   (ThreadList_Register rl ru g self thread reg = Returns reg' \<longrightarrow>
      list reg' = thread # list reg) \<and>
   (ThreadList_Unregister rl ru g self thread reg = Returns reg' \<longrightarrow>
      list reg' = removeAll thread (list reg)) \<and>
   (distinct (list reg) \<and> run_calls g cs reg = Returns reg'' \<longrightarrow>
      distinct (list reg'') \<and> set (list reg'') = spec_registered cs (set (list reg))) \<and>
   (distinct (list reg) \<and> lock_impl (lock reg) = None \<and> orderly cs (set (list reg)) \<longrightarrow>
      (\<exists>reg''. run_calls g cs reg = Returns reg''))"
proof -
  have a: "thread \<in> set (list reg) \<longrightarrow>
      (\<forall>reg'. ThreadList_Register rl ru g self thread reg \<noteq> Returns reg')"
    by (auto dest: Register_Returns)
  have b: "thread \<in> set (list reg) \<and> lock_impl (lock reg) = None \<and> rl = 0 \<longrightarrow>
      ThreadList_Register rl ru g self thread reg = Fatal"
    by (simp add: Register_free)
  have c: "thread \<notin> set (list reg) \<longrightarrow>
      (\<forall>reg'. ThreadList_Unregister rl ru g self thread reg \<noteq> Returns reg')"
    by (auto dest: Unregister_Returns)
  have d: "thread \<notin> set (list reg) \<and> lock_impl (lock reg) = None \<and> rl = 0 \<longrightarrow>
      ThreadList_Unregister rl ru g self thread reg = Fatal"
    by (simp add: Unregister_free)
  have e: "ThreadList_Register rl ru g self thread reg = Returns reg' \<longrightarrow>
      list reg' = thread # list reg"
    by (auto dest: Register_Returns)
  have f: "ThreadList_Unregister rl ru g self thread reg = Returns reg' \<longrightarrow>
      list reg' = removeAll thread (list reg)"
    by (auto dest: Unregister_Returns)
  have h: "distinct (list reg) \<and> run_calls g cs reg = Returns reg'' \<longrightarrow>
      distinct (list reg'') \<and> set (list reg'') = spec_registered cs (set (list reg))"
    using run_calls_registered by blast
  have i: "distinct (list reg) \<and> lock_impl (lock reg) = None \<and> orderly cs (set (list reg)) \<longrightarrow>
      (\<exists>reg''. run_calls g cs reg = Returns reg'')"
    using run_calls_orderly by blast
  from a b c d e f h i show ?thesis by blast
qed

theorem ThreadList_uniqueness_witness:
  "ThreadList_Create 0
     = Returns \<lparr>lock = \<lparr>name = ''ThreadList::Lock'', owner = NULL, lock_impl = None\<rparr>, list = []\<rparr> \<and>
   run_calls \<lparr>pthread_key_self = 0, specific = (\<lambda>k t. 10 + t)\<rparr>
       [CallRegister 0 0 1 11, CallRegister 0 0 2 12, CallUnregister 0 0 1 11]
       \<lparr>lock = \<lparr>name = ''ThreadList::Lock'', owner = NULL, lock_impl = None\<rparr>, list = []\<rparr>
     = Returns \<lparr>lock = \<lparr>name = ''ThreadList::Lock'', owner = 11, lock_impl = None\<rparr>, list = [12]\<rparr> \<and>
   spec_registered [CallRegister 0 0 1 11, CallRegister 0 0 2 12, CallUnregister 0 0 1 11] {}
     = {12} \<and>
   orderly [CallRegister 0 0 1 11, CallRegister 0 0 2 12, CallUnregister 0 0 1 11] {} \<and>
   ThreadList_Register 0 0 \<lparr>pthread_key_self = 0, specific = (\<lambda>k t. 10 + t)\<rparr> 1 12
       \<lparr>lock = \<lparr>name = ''ThreadList::Lock'', owner = 11, lock_impl = None\<rparr>, list = [12]\<rparr>
     = Fatal \<and>
   ThreadList_Unregister 0 0 \<lparr>pthread_key_self = 0, specific = (\<lambda>k t. 10 + t)\<rparr> 1 12
       \<lparr>lock = \<lparr>name = ''ThreadList::Lock'', owner = 11, lock_impl = None\<rparr>, list = [12]\<rparr>
     = Returns \<lparr>lock = \<lparr>name = ''ThreadList::Lock'', owner = 11, lock_impl = None\<rparr>, list = []\<rparr> \<and>
   ThreadList_Unregister 0 0 \<lparr>pthread_key_self = 0, specific = (\<lambda>k t. 10 + t)\<rparr> 1 13
       \<lparr>lock = \<lparr>name = ''ThreadList::Lock'', owner = 11, lock_impl = None\<rparr>, list = [12]\<rparr>
     = Fatal \<and>
   ThreadList_Register 0 0 \<lparr>pthread_key_self = 0, specific = (\<lambda>k t. 10 + t)\<rparr> 1 13
       \<lparr>lock = \<lparr>name = ''ThreadList::Lock'', owner = 11, lock_impl = None\<rparr>, list = [12]\<rparr>
     = Returns \<lparr>lock = \<lparr>name = ''ThreadList::Lock'', owner = 11, lock_impl = None\<rparr>,
                list = [13, 12]\<rparr>"
  using ThreadList_uniqueness
          [of 12 "\<lparr>lock = \<lparr>name = ''ThreadList::Lock'', owner = 11, lock_impl = None\<rparr>, list = [12]\<rparr>"
              0 0 "\<lparr>pthread_key_self = 0, specific = (\<lambda>k t. 10 + t)\<rparr>" 1
              "\<lparr>lock = \<lparr>name = ''ThreadList::Lock'', owner = 11, lock_impl = None\<rparr>, list = []\<rparr>"
              "[]"
              "\<lparr>lock = \<lparr>name = ''ThreadList::Lock'', owner = 11, lock_impl = None\<rparr>, list = [12]\<rparr>"]
        ThreadList_uniqueness
          [of 13 "\<lparr>lock = \<lparr>name = ''ThreadList::Lock'', owner = 11, lock_impl = None\<rparr>, list = [12]\<rparr>"
              0 0 "\<lparr>pthread_key_self = 0, specific = (\<lambda>k t. 10 + t)\<rparr>" 1
              "\<lparr>lock = \<lparr>name = ''ThreadList::Lock'', owner = 11, lock_impl = None\<rparr>,
                list = [13, 12]\<rparr>"
              "[CallRegister 0 0 1 11, CallRegister 0 0 2 12, CallUnregister 0 0 1 11]"
              "\<lparr>lock = \<lparr>name = ''ThreadList::Lock'', owner = 11, lock_impl = None\<rparr>, list = [12]\<rparr>"]
        ThreadList_uniqueness
          [of 11 "\<lparr>lock = \<lparr>name = ''ThreadList::Lock'', owner = NULL, lock_impl = None\<rparr>, list = []\<rparr>"
              0 0 "\<lparr>pthread_key_self = 0, specific = (\<lambda>k t. 10 + t)\<rparr>" 1
              "\<lparr>lock = \<lparr>name = ''ThreadList::Lock'', owner = 11, lock_impl = None\<rparr>, list = [11]\<rparr>"
              "[CallRegister 0 0 1 11, CallRegister 0 0 2 12, CallUnregister 0 0 1 11]"
              "\<lparr>lock = \<lparr>name = ''ThreadList::Lock'', owner = 11, lock_impl = None\<rparr>, list = [12]\<rparr>"]
  by (simp add: ThreadList_Create_def Mutex_Create_def pthread_mutex_init_def
        Register_free Unregister_free Current_def pthread_getspecific_def)

text \<open>
  C5. Destroying a registry with more than one entry, or with one entry that is not the
  \<open>Thread::Current()\<close> of the destroying thread, is fatal; destroying an empty registry,
  or one whose only entry is the destroying thread, returns.
\<close>

theorem ThreadList_dtor_shutdown_invariant:
  "(length (list reg) > 1 \<longrightarrow> ThreadList_dtor g self reg = Fatal) \<and>
   (list reg = [t] \<and> t \<noteq> Current g self \<longrightarrow> ThreadList_dtor g self reg = Fatal) \<and>
   (list reg = [] \<longrightarrow> ThreadList_dtor g self reg = Returns ()) \<and>
   (list reg = [Current g self] \<longrightarrow> ThreadList_dtor g self reg = Returns ())"
  by (simp add: ThreadList_dtor_def)

theorem ThreadList_dtor_shutdown_invariant_witness:
  "ThreadList_dtor \<lparr>pthread_key_self = 0, specific = (\<lambda>k t. 10 + t)\<rparr> 1
     \<lparr>lock = \<lparr>name = ''ThreadList::Lock'', owner = 11, lock_impl = None\<rparr>, list = [11, 12]\<rparr>
     = Fatal \<and>
   ThreadList_dtor \<lparr>pthread_key_self = 0, specific = (\<lambda>k t. 10 + t)\<rparr> 1
     \<lparr>lock = \<lparr>name = ''ThreadList::Lock'', owner = 11, lock_impl = None\<rparr>, list = [12]\<rparr>
     = Fatal \<and>
   ThreadList_dtor \<lparr>pthread_key_self = 0, specific = (\<lambda>k t. 10 + t)\<rparr> 1
     \<lparr>lock = \<lparr>name = ''ThreadList::Lock'', owner = 11, lock_impl = None\<rparr>, list = []\<rparr>
     = Returns () \<and>
   Current \<lparr>pthread_key_self = 0, specific = (\<lambda>k t. 10 + t)\<rparr> 1 = 11 \<and>
   ThreadList_dtor \<lparr>pthread_key_self = 0, specific = (\<lambda>k t. 10 + t)\<rparr> 1
     \<lparr>lock = \<lparr>name = ''ThreadList::Lock'', owner = 11, lock_impl = None\<rparr>, list = [11]\<rparr>
     = Returns ()"
  using ThreadList_dtor_shutdown_invariant
          [of "\<lparr>lock = \<lparr>name = ''ThreadList::Lock'', owner = 11, lock_impl = None\<rparr>, list = [11, 12]\<rparr>"
              "\<lparr>pthread_key_self = 0, specific = (\<lambda>k t. 10 + t)\<rparr>" 1 12]
        ThreadList_dtor_shutdown_invariant
          [of "\<lparr>lock = \<lparr>name = ''ThreadList::Lock'', owner = 11, lock_impl = None\<rparr>, list = [12]\<rparr>"
              "\<lparr>pthread_key_self = 0, specific = (\<lambda>k t. 10 + t)\<rparr>" 1 12]
        ThreadList_dtor_shutdown_invariant
          [of "\<lparr>lock = \<lparr>name = ''ThreadList::Lock'', owner = 11, lock_impl = None\<rparr>, list = []\<rparr>"
              "\<lparr>pthread_key_self = 0, specific = (\<lambda>k t. 10 + t)\<rparr>" 1 12]
        ThreadList_dtor_shutdown_invariant
          [of "\<lparr>lock = \<lparr>name = ''ThreadList::Lock'', owner = 11, lock_impl = None\<rparr>, list = [11]\<rparr>"
              "\<lparr>pthread_key_self = 0, specific = (\<lambda>k t. 10 + t)\<rparr>" 1 12]
  by (simp add: Current_def pthread_getspecific_def)

section \<open>Properties of thread creation, attachment and initialisation\<close>

text \<open>
  C6. When \<open>Attach\<close> returns, the object it returns is stored with state \<open>Runnable\<close>, and
  the slot of \<open>pthread_key_self_\<close> read by the same native thread, which is what
  \<open>Thread::Current()\<close> gives it, holds that object. When
  \<open>pthread_setspecific\<close> reports an error the call is fatal, so no attach returns with the
  slot unset.
\<close>

theorem Thread_Attach_runnable_and_current:
  "(Thread_Attach x runtime self addr res a e g threads = Returns (thread, g', threads') \<longrightarrow>
      (\<exists>t. threads' thread = Some t \<and> state t = kRunnable) \<and>
      pthread_getspecific g' (pthread_key_self g') self = thread \<and>
      Current g' self = thread) \<and>
   (res \<noteq> 0 \<longrightarrow> Thread_Attach x runtime self addr res a e g threads = Fatal)"
  by (auto simp add: Thread_Attach_def pthread_setspecific_def Current_def
        pthread_getspecific_def Let_def split: if_splits option.splits)

theorem Thread_Attach_runnable_and_current_witness:
  "\<exists>g' threads'.
     Thread_Attach
       \<lparr>Thread_ctor = \<lparr>state = kNew, stack = NULL, stack_limit = 0, stack_base = 0,
                        handle = 0, jni_env = NULL, exception = NULL\<rparr>,
        InitCpu = (\<lambda>t. t), RoundUp = (\<lambda>v n. (v + n - 1) div n * n), kPageSize = 4096\<rparr>
       \<lparr>stack_size = 65536, java_vm = Some \<lparr>check_jni = False\<rparr>\<rparr>
       1 (0x1234 :: 32 word) 0 100 200
       \<lparr>pthread_key_self = 0, specific = (\<lambda>k t. NULL)\<rparr> Map.empty
       = Returns (100, g', threads') \<and>
     (\<exists>t. threads' 100 = Some t \<and> state t = kRunnable) \<and>
     pthread_getspecific g' (pthread_key_self g') 1 = 100 \<and> Current g' 1 = 100 \<and>
     Thread_Attach
       \<lparr>Thread_ctor = \<lparr>state = kNew, stack = NULL, stack_limit = 0, stack_base = 0,
                        handle = 0, jni_env = NULL, exception = NULL\<rparr>,
        InitCpu = (\<lambda>t. t), RoundUp = (\<lambda>v n. (v + n - 1) div n * n), kPageSize = 4096\<rparr>
       \<lparr>stack_size = 65536, java_vm = Some \<lparr>check_jni = False\<rparr>\<rparr>
       1 (0x1234 :: 32 word) 22 100 200
       \<lparr>pthread_key_self = 0, specific = (\<lambda>k t. NULL)\<rparr> Map.empty
       = Fatal"
proof -
  have f:
    "Thread_Attach
       \<lparr>Thread_ctor = \<lparr>state = kNew, stack = NULL, stack_limit = 0, stack_base = 0,
                        handle = 0, jni_env = NULL, exception = NULL\<rparr>,
        InitCpu = (\<lambda>t. t), RoundUp = (\<lambda>v n. (v + n - 1) div n * n), kPageSize = 4096\<rparr>
       \<lparr>stack_size = 65536, java_vm = Some \<lparr>check_jni = False\<rparr>\<rparr>
       1 (0x1234 :: 32 word) 22 100 200
       \<lparr>pthread_key_self = 0, specific = (\<lambda>k t. NULL)\<rparr> Map.empty
       = Fatal"
    by (rule Thread_Attach_runnable_and_current [where res = 22, THEN conjunct2, THEN mp]) simp
  obtain g' threads' where r:
    "Thread_Attach
       \<lparr>Thread_ctor = \<lparr>state = kNew, stack = NULL, stack_limit = 0, stack_base = 0,
                        handle = 0, jni_env = NULL, exception = NULL\<rparr>,
        InitCpu = (\<lambda>t. t), RoundUp = (\<lambda>v n. (v + n - 1) div n * n), kPageSize = 4096\<rparr>
       \<lparr>stack_size = 65536, java_vm = Some \<lparr>check_jni = False\<rparr>\<rparr>
       1 (0x1234 :: 32 word) 0 100 200
       \<lparr>pthread_key_self = 0, specific = (\<lambda>k t. NULL)\<rparr> Map.empty
       = Returns (100, g', threads')"
    by (simp add: Thread_Attach_def pthread_setspecific_def GetJavaVM_def Let_def)
  with Thread_Attach_runnable_and_current f show ?thesis
    by blast
qed

text \<open>
  C7. The claim: a thread made by \<open>Create\<close> has its stack bounds recorded from the mapped
  region, the base above the limit. The code does not get there. Line 68 hands the region to
  the new thread with \<open>stack.release()\<close>, after which \<open>stack\<close> holds the null pointer, and
  lines 70 and 71 read the bounds through \<open>stack\<close>: whenever the region was mapped, the
  call goes through a null pointer, and it is fatal when the region was not mapped. So
  \<open>Create\<close> never returns a thread, for a stack of 65536 bytes mapped at 0x10000 as for
  any other.
\<close>

theorem Thread_Create_reads_released_stack:
  "Thread_Create
     \<lparr>Thread_ctor = \<lparr>state = kNew, stack = NULL, stack_limit = 0, stack_base = 0,
                      handle = 0, jni_env = NULL, exception = NULL\<rparr>,
      InitCpu = (\<lambda>t. t), RoundUp = (\<lambda>v n. (v + n - 1) div n * n), kPageSize = 4096\<rparr>
     \<lparr>stack_size = 65536, java_vm = Some \<lparr>check_jni = False\<rparr>\<rparr>
     50 100 0 0 0 0
     [50 \<mapsto> \<lparr>base_addr = (0x10000 :: 32 word), byte_count = 0x10000\<rparr>] Map.empty
     = NullDeref \<and>
   Thread_Create x runtime mp a r1 r2 r3 r4 maps threads =
     (if mp = NULL then Fatal else NullDeref)"
  by (simp add: Thread_Create_def scoped_ptr_release_def scoped_ptr_arrow_def Let_def)

text \<open>
  C8. \<open>Thread::Init\<close> always returns: \<open>false\<close> when \<open>pthread_key_create\<close> reports an error
  or when the slot of the new key is not empty for the calling thread, \<open>true\<close> otherwise;
  on success the key is stored in \<open>pthread_key_self_\<close>.
\<close>

theorem Thread_Init_returns_bool:
  "Thread_Init res k self g =
     Returns (res = 0 \<and> specific g k self = NULL,
              if res = 0 then g\<lparr>pthread_key_self := k\<rparr> else g)"
  by (simp add: Thread_Init_def pthread_key_create_def pthread_getspecific_def)

section \<open>Properties of state printing\<close>

lemma put_State_in_range:
  "put_State os 0 = Some (os @ ''New'')"
  "put_State os 1 = Some (os @ ''Runnable'')"
  "put_State os 2 = Some (os @ ''Blocked'')"
  "put_State os 3 = Some (os @ ''Waiting'')"
  "put_State os 4 = Some (os @ ''TimedWaiting'')"
  "put_State os 5 = Some (os @ ''Native'')"
  "put_State os 6 = Some (os @ ''Terminated'')"
  by (simp_all add: put_State_def kNew_def kTerminated_def array_at_def kStateNames_def
        put_str_def)

lemma in_range_cases:
  "kNew \<le> st \<Longrightarrow> st \<le> kTerminated \<Longrightarrow>
     st = 0 \<or> st = 1 \<or> st = 2 \<or> st = 3 \<or> st = 4 \<or> st = 5 \<or> st = 6"
  unfolding kNew_def kTerminated_def by arith

lemma put_State_name:
  assumes "kNew \<le> st" "st \<le> kTerminated"
  shows "put_State os st = Some (os @ kStateNames ! nat st)"
proof -
  from assms have "st = 0 \<or> st = 1 \<or> st = 2 \<or> st = 3 \<or> st = 4 \<or> st = 5 \<or> st = 6"
    by (rule in_range_cases)
  then show ?thesis
    by (elim disjE) (simp_all add: put_State_in_range kStateNames_def)
qed


lemma kStateNames_distinct: "distinct kStateNames"
  by (simp add: kStateNames_def)

lemma put_State_inj:
  assumes "kNew \<le> s" "s \<le> kTerminated" "kNew \<le> t" "t \<le> kTerminated"
    and eq: "put_State os s = put_State os t"
  shows "s = t"
proof -
  have "put_State os s = Some (os @ kStateNames ! nat s)"
    using assms(1,2) by (rule put_State_name)
  moreover have "put_State os t = Some (os @ kStateNames ! nat t)"
    using assms(3,4) by (rule put_State_name)
  ultimately have names: "kStateNames ! nat s = kStateNames ! nat t"
    using eq by simp
  have "length kStateNames = 7"
    by (simp add: kStateNames_def)
  with assms(2,4) have "nat s < length kStateNames" "nat t < length kStateNames"
    by (simp_all add: kTerminated_def)
  with names kStateNames_distinct have "nat s = nat t"
    by (simp only: nth_eq_iff_index_eq)
  with assms(1,3) show ?thesis
    by (simp add: kNew_def)
qed


lemma put_State_fallback:
  "st < kNew \<or> kTerminated < st \<Longrightarrow>
     put_State os st = Some (os @ ''State['' @ put_int [] st @ '']'')"
  by (auto simp add: put_State_def put_str_def put_int_def)

lemma put_State_total: "put_State os st \<noteq> None"
proof (cases "kNew \<le> st \<and> st \<le> kTerminated")
  case True
  then show ?thesis by (simp add: put_State_name)
next
  case False
  then have "st < kNew \<or> kTerminated < st" by auto
  then show ?thesis by (simp add: put_State_fallback)
qed

text \<open>
  C9. Each of the seven states is written as its own name, and two different states among
  the seven are written differently. A value outside the seven is written as \<open>State[n]\<close>
  with \<open>n\<close> its decimal value. No value makes the array be read outside its bounds.
\<close>

theorem put_State_names_and_fallback:
  "put_State os kNew = Some (os @ ''New'') \<and>
   put_State os kRunnable = Some (os @ ''Runnable'') \<and>
   put_State os kBlocked = Some (os @ ''Blocked'') \<and>
   put_State os kWaiting = Some (os @ ''Waiting'') \<and>
   put_State os kTimedWaiting = Some (os @ ''TimedWaiting'') \<and>
   put_State os kNative = Some (os @ ''Native'') \<and>
   put_State os kTerminated = Some (os @ ''Terminated'') \<and>
   (kNew \<le> s \<and> s \<le> kTerminated \<and> kNew \<le> t \<and> t \<le> kTerminated \<and> s \<noteq> t \<longrightarrow>
      put_State os s \<noteq> put_State os t) \<and>
   (st < kNew \<or> kTerminated < st \<longrightarrow>
      put_State os st = Some (os @ ''State['' @ put_int [] st @ '']'')) \<and>
   put_State os st \<noteq> None"
proof -
  have names:
    "put_State os kNew = Some (os @ ''New'')"
    "put_State os kRunnable = Some (os @ ''Runnable'')"
    "put_State os kBlocked = Some (os @ ''Blocked'')"
    "put_State os kWaiting = Some (os @ ''Waiting'')"
    "put_State os kTimedWaiting = Some (os @ ''TimedWaiting'')"
    "put_State os kNative = Some (os @ ''Native'')"
    "put_State os kTerminated = Some (os @ ''Terminated'')"
    unfolding kNew_def kRunnable_def kBlocked_def kWaiting_def kTimedWaiting_def kNative_def
      kTerminated_def
    by (rule put_State_in_range)+
  have inj: "kNew \<le> s \<and> s \<le> kTerminated \<and> kNew \<le> t \<and> t \<le> kTerminated \<and> s \<noteq> t \<longrightarrow>
      put_State os s \<noteq> put_State os t"
    using put_State_inj [of s t os] by blast
  have fallback: "st < kNew \<or> kTerminated < st \<longrightarrow>
      put_State os st = Some (os @ ''State['' @ put_int [] st @ '']'')"
    using put_State_fallback [of st os] by blast
  from names inj fallback put_State_total [of os st] show ?thesis
    by blast
qed

theorem put_State_names_and_fallback_witness:
  "kNew \<le> kRunnable \<and> kRunnable \<le> kTerminated \<and> kNew \<le> kNative \<and> kNative \<le> kTerminated \<and>
   kRunnable \<noteq> kNative \<and> put_State ''state='' kRunnable \<noteq> put_State ''state='' kNative \<and>
   put_State ''state='' kNative = Some ''state=Native'' \<and>
   kTerminated < 7 \<and> put_State ''state='' 7 = Some ''state=State[7]'' \<and>
   - 1 < kNew \<and> put_State ''state='' (- 1) = Some ''state=State[-1]''"
  using put_State_names_and_fallback [of "''state=''" kRunnable kNative 7]
        put_State_names_and_fallback [of "''state=''" kRunnable kNative "- 1"]
  by (simp add: kNew_def kRunnable_def kNative_def kTerminated_def put_int_def dec.simps
        digit_char_def)

section \<open>Properties of the formatted message\<close>

lemma takeWhile_upto_stop: "\<not> P y \<Longrightarrow> takeWhile P (xs @ y # zs) = takeWhile P xs"
  by (induction xs) simp_all

lemma vsnprintf_length:
  "0 < n \<Longrightarrow> n \<le> length buf \<Longrightarrow> length (fst (vsnprintf buf n out)) = length buf"
  by (auto simp add: vsnprintf_def Let_def)

lemma vsnprintf_NUL:
  "0 < n \<Longrightarrow> fst (vsnprintf buf n out) ! min (length out) (n - 1) = NUL"
  by (simp add: vsnprintf_def Let_def nth_append)

lemma vsnprintf_c_str: "0 < n \<Longrightarrow> c_str (fst (vsnprintf buf n out)) = c_str (take (n - 1) out)"
  by (simp add: vsnprintf_def Let_def c_str_def takeWhile_upto_stop)

lemma c_str_length: "length (c_str xs) \<le> length xs"
  by (simp add: c_str_def length_takeWhile_le)

lemma c_str_no_NUL: "NUL \<notin> set xs \<Longrightarrow> c_str xs = xs"
  by (auto simp add: c_str_def)

lemma msg_array_length: "length (map junk [0..<512]) = 512"
  by (simp only: length_map length_upt diff_zero)


text \<open>
  C10. The array handed to \<open>ThrowNewException\<close> is the 512-byte array after
  \<open>vsnprintf\<close>: it holds a null character at index \<open>min (length out) 511\<close>, where \<open>out\<close>
  is the complete rendering, so the message read from it is at most 511 characters long;
  the message is the rendering cut after 511 characters (and at its first null character,
  if it has one).
\<close>

theorem ThrowNewExceptionV_message_bounded:
  "ThrowNewExceptionV k format junk thread cls fmt args =
     k thread cls (fst (vsnprintf (map junk [0..<512]) 512 (format fmt args))) \<and>
   length (fst (vsnprintf (map junk [0..<512]) 512 (format fmt args))) = 512 \<and>
   fst (vsnprintf (map junk [0..<512]) 512 (format fmt args))
     ! min (length (format fmt args)) 511 = NUL \<and>
   length (c_str (fst (vsnprintf (map junk [0..<512]) 512 (format fmt args)))) \<le> 511 \<and>
   c_str (fst (vsnprintf (map junk [0..<512]) 512 (format fmt args)))
     = c_str (take 511 (format fmt args)) \<and>
   (NUL \<notin> set (format fmt args) \<longrightarrow>
      c_str (fst (vsnprintf (map junk [0..<512]) 512 (format fmt args)))
        = take 511 (format fmt args))"
proof -
  let ?out = "format fmt args"
  let ?buf = "map junk [0..<512]"
  let ?msg = "fst (vsnprintf ?buf 512 ?out)"
  have buf: "length ?buf = 512"
    by (rule msg_array_length)
  have call: "ThrowNewExceptionV k format junk thread cls fmt args = k thread cls ?msg"
    by (simp only: ThrowNewExceptionV_def Let_def buf split_beta)
  have len: "length ?msg = 512"
    using vsnprintf_length [of 512 ?buf ?out] buf by simp
  have nul: "?msg ! min (length ?out) 511 = NUL"
    using vsnprintf_NUL [of 512 ?buf ?out] by simp
  have str: "c_str ?msg = c_str (take 511 ?out)"
    using vsnprintf_c_str [of 512 ?buf ?out] by simp
  have "length (c_str (take 511 ?out)) \<le> length (take 511 ?out)"
    by (rule c_str_length)
  with str have short: "length (c_str ?msg) \<le> 511"
    by simp
  have whole: "NUL \<notin> set ?out \<longrightarrow> c_str ?msg = take 511 ?out"
  proof
    assume "NUL \<notin> set ?out"
    then have "NUL \<notin> set (take 511 ?out)"
      by (auto dest: in_set_takeD)
    then have "c_str (take 511 ?out) = take 511 ?out"
      by (rule c_str_no_NUL)
    with str show "c_str ?msg = take 511 ?out"
      by simp
  qed
  from call len nul short str whole show ?thesis
    by (intro conjI)
qed


theorem ThrowNewExceptionV_message_bounded_witness:
  "NUL \<notin> set (replicate 600 (CHR ''a'')) \<and>
   c_str (fst (vsnprintf (map (\<lambda>i. CHR ''?'') [0..<512]) 512 (replicate 600 (CHR ''a''))))
     = replicate 511 (CHR ''a'') \<and>
   length (c_str (fst (vsnprintf (map (\<lambda>i. CHR ''?'') [0..<512]) 512
     (replicate 600 (CHR ''a''))))) \<le> 511 \<and>
   fst (vsnprintf (map (\<lambda>i. CHR ''?'') [0..<512]) 512 (replicate 600 (CHR ''a''))) ! 511 = NUL"
proof -
  have no: "NUL \<notin> set (replicate 600 (CHR ''a''))"
    by simp
  have cut: "take 511 (replicate 600 (CHR ''a'')) = replicate 511 (CHR ''a'')"
    by (simp only: take_replicate) simp
  have at: "min (length (replicate 600 (CHR ''a''))) 511 = (511 :: nat)"
    by simp
  note t = ThrowNewExceptionV_message_bounded
             [of "\<lambda>th c m. m" "\<lambda>f a. f" "\<lambda>i. CHR ''?''" 0 "''java/lang/Error''"
                 "replicate 600 (CHR ''a'')" "()"]
  from t no have a: "c_str (fst (vsnprintf (map (\<lambda>i. CHR ''?'') [0..<512]) 512
      (replicate 600 (CHR ''a'')))) = take 511 (replicate 600 (CHR ''a''))"
    by blast
  from t have b: "length (c_str (fst (vsnprintf (map (\<lambda>i. CHR ''?'') [0..<512]) 512
      (replicate 600 (CHR ''a''))))) \<le> 511"
    by blast
  from t have c: "fst (vsnprintf (map (\<lambda>i. CHR ''?'') [0..<512]) 512
      (replicate 600 (CHR ''a''))) ! min (length (replicate 600 (CHR ''a''))) 511 = NUL"
    by blast
  from no a [unfolded cut] b c [unfolded at] show ?thesis
    by (intro conjI)
qed

end
